theory Spec2Isabelle
  imports Main "HOL-Library.Word" "HOL-Library.Sublist"
begin

section \<open>JavaScript strings\<close>

text \<open>
  A JavaScript string is a sequence of UTF-16 code units, and a regular expression
  without the \<open>u\<close> flag works on code units. The em-dash of the source's character
  classes is U+2014, one code unit, which an 8-bit \<open>char\<close> cannot hold: strings are
  lists of 16-bit words, and \<open>js\<close> embeds an ASCII literal.
\<close>

type_synonym jschar = "16 word"
type_synonym jsstring = "jschar list"

definition js :: "string \<Rightarrow> jsstring" where
  "js s = map of_char s"

definition DASH :: jschar where
  "DASH = 0x2D"

definition EM_DASH :: jschar where
  "EM_DASH = 0x2014"

definition is_upper :: "jschar \<Rightarrow> bool" where
  "is_upper c \<longleftrightarrow> 0x41 \<le> c \<and> c \<le> 0x5A"

definition is_lower :: "jschar \<Rightarrow> bool" where
  "is_lower c \<longleftrightarrow> 0x61 \<le> c \<and> c \<le> 0x7A"

definition is_digit :: "jschar \<Rightarrow> bool" where
  "is_digit c \<longleftrightarrow> 0x30 \<le> c \<and> c \<le> 0x39"

text \<open>The class \<open>\w\<close> of a JavaScript regular expression: \<open>[A-Za-z0-9_]\<close>.\<close>

definition is_word_char :: "jschar \<Rightarrow> bool" where
  "is_word_char c \<longleftrightarrow> is_upper c \<or> is_lower c \<or> is_digit c \<or> c = 0x5F"

text \<open>
  What \<open>String.prototype.trim\<close> removes: the WhiteSpace and LineTerminator code
  points of ECMAScript.
\<close>

definition is_js_space :: "jschar \<Rightarrow> bool" where
  "is_js_space c \<longleftrightarrow>
     (0x09 \<le> c \<and> c \<le> 0x0D) \<or> c = 0x20 \<or> c = 0xA0 \<or> c = 0x1680 \<or>
     (0x2000 \<le> c \<and> c \<le> 0x200A) \<or> c = 0x2028 \<or> c = 0x2029 \<or> c = 0x202F \<or>
     c = 0x205F \<or> c = 0x3000 \<or> c = 0xFEFF"

definition js_trim :: "jsstring \<Rightarrow> jsstring" where
  "js_trim s = rev (dropWhile is_js_space (rev (dropWhile is_js_space s)))"

text \<open>
  \<open>s.replace(/[...]/g, rep)\<close> for a pattern that is one character class: every code
  unit of the class is replaced by \<open>rep\<close>, the others stay where they are.
\<close>

definition replace_class :: "(jschar \<Rightarrow> bool) \<Rightarrow> jsstring \<Rightarrow> jsstring \<Rightarrow> jsstring" where
  "replace_class cls rep s = concat (map (\<lambda>c. if cls c then rep else [c]) s)"

section \<open>Normalisation of a scanned key (\<open>filterCdKeyText\<close>)\<close>

text \<open>
  Writing E for the em-dash, the function is
  \<^verbatim>\<open>cdKey = cdKey.replace(/[^\wE-]/g, '');\<close>
  \<^verbatim>\<open>cdKey = cdKey.replace(/[E-]/g, '-');\<close>
  in \<open>handler/freebie_steam-handler.js\<close> and, word for word, in the recogniser module.
  The two log lines of the function are in \<open>recognice\<close> below.
\<close>

definition not_word_or_dash :: "jschar \<Rightarrow> bool" where
  "not_word_or_dash c \<longleftrightarrow> \<not> (is_word_char c \<or> c = EM_DASH \<or> c = DASH)"

definition any_dash :: "jschar \<Rightarrow> bool" where
  "any_dash c \<longleftrightarrow> c = EM_DASH \<or> c = DASH"

definition filterCdKeyText :: "jsstring \<Rightarrow> jsstring" where
  "filterCdKeyText cdKey =
     replace_class any_dash [DASH] (replace_class not_word_or_dash [] cdKey)"

section \<open>The extraction pattern of the text filter\<close>

text \<open>The class of \<open>parseCdKey\<close>: space, \<open>A-Z\<close>, \<open>0-9\<close>, em-dash, dash.\<close>

definition key_char :: "jschar \<Rightarrow> bool" where
  "key_char c \<longleftrightarrow> c = 0x20 \<or> is_upper c \<or> is_digit c \<or> c = EM_DASH \<or> c = DASH"

text \<open>
  A string that is one run of the extraction pattern (the class, \<open>{5,}\<close>): at least
  five code units, all of the class.
\<close>

definition is_key_run :: "jsstring \<Rightarrow> bool" where
  "is_key_run s \<longleftrightarrow> 5 \<le> length s \<and> list_all key_char s"

text \<open>The characters of \<open>[A-Za-z0-9-]\<close>.\<close>

definition alnum_or_dash :: "jschar \<Rightarrow> bool" where
  "alnum_or_dash c \<longleftrightarrow> is_upper c \<or> is_lower c \<or> is_digit c \<or> c = DASH"

text \<open>An em-dash read as an ordinary dash, every other code unit as itself.\<close>

definition dash_of :: "jschar \<Rightarrow> jschar" where
  "dash_of c = (if c = EM_DASH then DASH else c)"

section \<open>Values, results and the process state\<close>

text \<open>
  The values the source rejects promises with and hands to \<open>catch\<close>: bare numbers (the
  \<open>EC_...\<close> codes), strings, \<open>Error\<close> objects (with their message) and \<open>undefined\<close>.
\<close>

datatype js_value = Undefined | Num int | Str jsstring | ErrorObj string

datatype js_error = TypeError | ModuleError

text \<open>A synchronous call returns or throws.\<close>

datatype 'a result = Returns 'a | Throws js_error

text \<open>
  How a promise ends: resolved, rejected, never settled (\<open>Pending\<close>: the source sets no
  timeout on any external call), or never settled because a callback of an external
  library threw (\<open>Uncaught\<close>): such an exception is outside every promise chain and
  reaches the top level of the process.
\<close>

datatype 'a promise = Resolved 'a | Rejected js_value | Pending | Uncaught js_error

text \<open>
  One line per \<open>utils.log\<close> / \<open>console.log\<close> call of the modelled code, with the values
  the line prints; the time stamp and the colours are left out, and a key that the
  source prints upper-cased is kept as it is.
\<close>

datatype log_line =
    ProbablyKeys "jsstring list option"
  | FoundCdKey jsstring
  | SteamNotInitialised
  | ActivationAttempt jsstring
  | ActivationSuccess jsstring jsstring
  | AlreadyOwnLine jsstring jsstring int
  | InvalidLine jsstring int
  | AlreadyActivatedLine jsstring jsstring int
  | ActivationFailedLine jsstring int
  | LoadingImage nat
  | SavingImage nat
  | ImageSaved nat
  | CdKeyScanned jsstring
  | CdKeyFiltered jsstring
  | HandlerError "jsstring option"
  | ConnectingHandlers
  | NoHandlersFound
  | FoundHandlers nat "string list"
  | SteamReady
  | TelegramReady
  | EventsHandlerReady
  | HandlersReady
  | LaunchComplete
  | RuntimeError js_value

text \<open>The two modules of the handler folder; each exports the function that registers its listener.\<close>

datatype handler = G2keysHandler | FreebieSteamHandler

text \<open>
  The module-level variables of the process: \<open>lastMsg\<close> of the text handler, \<open>_ready\<close>
  of the key activator, the listeners of the shared \<open>eventEmitter\<close>; and what the
  process did to the outside: the product codes handed to \<open>activateKey\<close> (one
  redemption request each) and the lines it logged.
\<close>

record world =
  lastMsg :: jsstring
  ready :: bool
  requests :: "jsstring list"
  logged :: "log_line list"
  listeners :: "handler list"

definition initial_world :: world where
  "initial_world = \<lparr>lastMsg = [], ready = False, requests = [], logged = [], listeners = []\<rparr>"

definition log_line :: "log_line \<Rightarrow> world \<Rightarrow> world" where
  "log_line l w = w\<lparr>logged := logged w @ [l]\<rparr>"

section \<open>Inbound events\<close>

record file_location =
  dc_id :: nat
  volume_id :: jsstring
  local_id :: nat
  secret :: jsstring

record photo_size =
  location :: file_location
  psize :: nat

record photo =
  photo_id :: nat
  sizes :: "photo_size list"

datatype media = MessageMediaPhoto photo | MessageMediaOther

text \<open>
  \<open>to_channel_id\<close> is \<open>message.to_id.channel_id\<close>, \<open>None\<close> where the peer is not a
  channel (the property is \<open>undefined\<close>); \<open>message_text\<close> is \<open>message.message\<close>;
  \<open>media\<close> is \<open>None\<close> where the message has none.
\<close>

record message =
  to_channel_id :: "nat option"
  message_text :: jsstring
  media :: "media option"

datatype update = UpdateNewChannelMessage message | UpdateOther

datatype event = Updates "update list" | EventOther

section \<open>The text handler (channel \<open>g2keys\<close>)\<close>

definition g2keys_chatId :: nat where
  "g2keys_chatId = 1298051109"

text \<open>
  The loop of \<open>eventsFilter\<close>: the first update that is a new channel message of the
  configured channel and whose text differs from \<open>lastMsg\<close> is stored in \<open>lastMsg\<close>
  and returned; \<open>None\<close> is \<open>undefined\<close>.
\<close>

fun g2keys_updates :: "update list \<Rightarrow> world \<Rightarrow> world \<times> jsstring option" where
  "g2keys_updates [] w = (w, None)"
| "g2keys_updates (UpdateOther # us) w = g2keys_updates us w"
| "g2keys_updates (UpdateNewChannelMessage m # us) w =
     (if to_channel_id m \<noteq> Some g2keys_chatId then g2keys_updates us w
      else if lastMsg w \<noteq> message_text m
        then (w\<lparr>lastMsg := message_text m\<rparr>, Some (message_text m))
      else g2keys_updates us w)"

definition g2keys_eventsFilter :: "event \<Rightarrow> world \<Rightarrow> world \<times> jsstring option" where
  "g2keys_eventsFilter eventData w =
     (case eventData of EventOther \<Rightarrow> (w, None) | Updates updateArray \<Rightarrow> g2keys_updates updateArray w)"

text \<open>
  All matches of the global pattern (the class, \<open>{5,}\<close>), left to right. At a start position the
  greedy quantifier takes the whole run of class characters; with five or more the run
  is a match and the search goes on behind it, with fewer the search moves one
  position on.
\<close>

function key_runs :: "jsstring \<Rightarrow> jsstring list" where
  "key_runs [] = []"
| "key_runs (c # cs) =
     (let run = takeWhile key_char (c # cs)
      in if 5 \<le> length run then run # key_runs (dropWhile key_char (c # cs))
         else key_runs cs)"
  by pat_completeness auto
termination
proof (relation "measure length")
  fix c :: jschar and cs run
  assume "run = takeWhile key_char (c # cs)" and "5 \<le> length run"
  then have "key_char c"
    by (auto split: if_splits)
  then show "(dropWhile key_char (c # cs), c # cs) \<in> measure length"
    by (simp add: length_dropWhile_le le_imp_less_Suc)
qed auto

text \<open>\<open>String.prototype.match\<close> with a global pattern: the matches, or \<open>null\<close> when there is none.\<close>

definition js_match_g :: "jsstring \<Rightarrow> jsstring list option" where
  "js_match_g s = (case key_runs s of [] \<Rightarrow> None | m # ms \<Rightarrow> Some (m # ms))"

text \<open>
  \<open>parseCdKey\<close>. The guard is \<open>probalyKeys !== undefined && probalyKeys.length > 0\<close>:
  \<open>null\<close> passes its first half, and reading \<open>length\<close> of \<open>null\<close> throws a TypeError.
\<close>

definition parseCdKey :: "jsstring \<Rightarrow> world \<Rightarrow> world \<times> jsstring option result" where
  "parseCdKey chatMessage w =
     (let probalyKeys = js_match_g chatMessage;
          w1 = log_line (ProbablyKeys probalyKeys) w
      in case probalyKeys of
           None \<Rightarrow> (w1, Throws TypeError)
         | Some [] \<Rightarrow> (w1, Returns None)
         | Some (k # ks) \<Rightarrow>
             (let cdKey = js_trim k
              in (log_line (FoundCdKey cdKey) w1, Returns (Some cdKey))))"

section \<open>The key activator (\<open>steam/key_activator.js\<close>)\<close>

definition EC_ACTIVATION_FAILED :: int where
  "EC_ACTIVATION_FAILED = 1"

definition EC_ACTIVATION_FAILED_ALREADY_ACTIVATED :: int where
  "EC_ACTIVATION_FAILED_ALREADY_ACTIVATED = 2"

definition EC_NOT_INITED :: int where
  "EC_NOT_INITED = 3"

definition EC_AUTH_FAILED :: int where
  "EC_AUTH_FAILED = 4"

definition EC_AUTH_CODE_REQUIRED :: int where
  "EC_AUTH_CODE_REQUIRED = 5"

text \<open>\<open>Steam.EResult.OK\<close> of the platform library.\<close>

definition EResult_OK :: int where
  "EResult_OK = 1"

text \<open>
  The response handed to the callback of \<open>activateKey\<close>. \<open>purchase_receipt_info\<close> is
  the list \<open>purchase_receipt_info.MessageObject.lineitems\<close>, each item by its
  \<open>ItemDescription\<close>; \<open>None\<close> where a member of that path is missing, so that reading
  it throws a TypeError.
\<close>

record purchase_response =
  eresult :: int
  purchase_result_details :: int
  purchase_receipt_info :: "jsstring list option"

definition getGameName :: "purchase_response \<Rightarrow> jsstring result" where
  "getGameName purchaseResponse =
     (case purchase_receipt_info purchaseResponse of
        None \<Rightarrow> Throws TypeError
      | Some [] \<Rightarrow> Returns (js ''unknown'')
      | Some (item # items) \<Rightarrow> Returns item)"

text \<open>
  The \<open>switch\<close> on \<open>purchase_result_details\<close> of a response that is not OK: the error
  code to reject with and the line to log. Cases 9 and 15 print the game name.
\<close>

definition details_switch :: "jsstring \<Rightarrow> purchase_response \<Rightarrow> (int \<times> log_line) result" where
  "details_switch cdKey purchaseResponse =
     (let details = purchase_result_details purchaseResponse
      in if details = 9 then
           (case getGameName purchaseResponse of
              Throws e \<Rightarrow> Throws e
            | Returns name \<Rightarrow> Returns (EC_ACTIVATION_FAILED, AlreadyOwnLine cdKey name details))
         else if details = 14 then
           Returns (EC_ACTIVATION_FAILED, InvalidLine cdKey details)
         else if details = 15 then
           (case getGameName purchaseResponse of
              Throws e \<Rightarrow> Throws e
            | Returns name \<Rightarrow>
                Returns (EC_ACTIVATION_FAILED_ALREADY_ACTIVATED, AlreadyActivatedLine cdKey name details))
         else Returns (EC_ACTIVATION_FAILED, ActivationFailedLine cdKey details))"

text \<open>
  The callback of \<open>activateKey\<close>. It runs when the platform answers, outside the
  promise's executor: what it throws is not a rejection.
\<close>

definition activateKey_callback :: "jsstring \<Rightarrow> purchase_response \<Rightarrow> world \<Rightarrow> world \<times> jsstring promise" where
  "activateKey_callback cdKey purchaseResponse w =
     (if eresult purchaseResponse = EResult_OK then
        (case getGameName purchaseResponse of
           Throws e \<Rightarrow> (w, Uncaught e)
         | Returns name \<Rightarrow> (log_line (ActivationSuccess cdKey name) w, Resolved cdKey))
      else
        (case details_switch cdKey purchaseResponse of
           Throws e \<Rightarrow> (w, Uncaught e)
         | Returns (errorCode, line) \<Rightarrow> (log_line line w, Rejected (Num errorCode))))"

text \<open>
  \<open>activate\<close>. \<open>reply\<close> is the platform's answer to the redemption request, should one
  be sent: \<open>None\<close> when the platform never answers.
\<close>

definition activate :: "purchase_response option \<Rightarrow> jsstring \<Rightarrow> world \<Rightarrow> world \<times> jsstring promise" where
  "activate reply cdKey w =
     (if \<not> ready w then (log_line SteamNotInitialised w, Rejected (Num EC_NOT_INITED))
      else
        (let cdKey = js_trim cdKey;
             w1 = log_line (ActivationAttempt cdKey) w;
             w2 = w1\<lparr>requests := requests w1 @ [cdKey]\<rparr>
         in case reply of
              None \<Rightarrow> (w2, Pending)
            | Some purchaseResponse \<Rightarrow> activateKey_callback cdKey purchaseResponse w2))"

text \<open>
  The older \<open>activate\<close> of \<open>steam/steam.js\<close>, which no module of the process requires:
  its \<open>switch\<close> has the one case 53. Only the error code is modelled.
\<close>

definition steam_js_errorCode :: "purchase_response \<Rightarrow> int" where
  "steam_js_errorCode purchaseResponse =
     (if purchase_result_details purchaseResponse = 53
      then EC_ACTIVATION_FAILED_ALREADY_ACTIVATED else EC_ACTIVATION_FAILED)"

text \<open>
  The error kinds of the specification, by its own words: the kind for a detail code,
  and the kind each rejection value of the code stands for.
\<close>

datatype reject_kind =
  ALREADY_OWNED | INVALID | ALREADY_ACTIVATED | ACTIVATION_FAILED | NOT_INITIALIZED
  | AUTH_FAILED | AUTH_CODE_REQUIRED

definition spec_reject_kind :: "int \<Rightarrow> reject_kind" where
  "spec_reject_kind details =
     (if details = 9 then ALREADY_OWNED
      else if details = 14 then INVALID
      else if details = 15 then ALREADY_ACTIVATED
      else ACTIVATION_FAILED)"

definition kind_of_value :: "js_value \<Rightarrow> reject_kind option" where
  "kind_of_value v =
     (if v = Num EC_ACTIVATION_FAILED then Some ACTIVATION_FAILED
      else if v = Num EC_ACTIVATION_FAILED_ALREADY_ACTIVATED then Some ALREADY_ACTIVATED
      else if v = Num EC_NOT_INITED then Some NOT_INITIALIZED
      else if v = Num EC_AUTH_FAILED then Some AUTH_FAILED
      else if v = Num EC_AUTH_CODE_REQUIRED then Some AUTH_CODE_REQUIRED
      else None)"

definition rejected_kind :: "'a promise \<Rightarrow> reject_kind option" where
  "rejected_kind p = (case p of Rejected v \<Rightarrow> kind_of_value v | _ \<Rightarrow> None)"

section \<open>The listener of the text handler\<close>

text \<open>
  How one call of a listener ends. The listener itself returns (\<open>Completed\<close> once its
  promise chain is through) or throws into \<open>emit\<close>, which is called by the dispatcher
  (\<open>EscapesToDispatcher\<close>). Its promise chain may never settle, a callback inside it may
  throw outside the chain, or its \<open>catch\<close> handler may itself throw, which leaves a
  rejection nobody handles.
\<close>

datatype run_outcome =
    Completed
  | EscapesToDispatcher js_error
  | UncaughtInCallback js_error
  | NeverSettles
  | UnhandledRejection js_error

text \<open>\<open>.catch((e) => {})\<close>\<close>

definition g2keys_catch :: "'a promise \<Rightarrow> run_outcome" where
  "g2keys_catch p =
     (case p of
        Resolved x \<Rightarrow> Completed
      | Rejected e \<Rightarrow> Completed
      | Pending \<Rightarrow> NeverSettles
      | Uncaught e \<Rightarrow> UncaughtInCallback e)"

definition g2keys_listener :: "purchase_response option \<Rightarrow> event \<Rightarrow> world \<Rightarrow> world \<times> run_outcome" where
  "g2keys_listener reply eventData w =
     (case g2keys_eventsFilter eventData w of
        (w1, None) \<Rightarrow> (w1, Completed)
      | (w1, Some chatMessage) \<Rightarrow>
          (case parseCdKey chatMessage w1 of
             (w2, Throws e) \<Rightarrow> (w2, EscapesToDispatcher e)
           | (w2, Returns None) \<Rightarrow> (w2, Completed)
           | (w2, Returns (Some cdKey)) \<Rightarrow>
               (case activate reply cdKey w2 of (w3, p) \<Rightarrow> (w3, g2keys_catch p))))"

text \<open>
  The extraction of one listener call, that is its steps before \<open>activate\<close>:
  \<open>eventsFilter\<close>, then \<open>parseCdKey\<close> on the body handed on. \<open>Returns (Some cdKey)\<close> is
  the candidate key the listener passes to \<open>activate\<close>, \<open>Returns None\<close> is a call in
  which nothing is passed.
\<close>

definition g2keys_extraction :: "event \<Rightarrow> world \<Rightarrow> world \<times> jsstring option result" where
  "g2keys_extraction eventData w =
     (case g2keys_eventsFilter eventData w of
        (w1, None) \<Rightarrow> (w1, Returns None)
      | (w1, Some chatMessage) \<Rightarrow> parseCdKey chatMessage w1)"

section \<open>The image handler (channel \<open>freebie_steam\<close>)\<close>

definition freebie_chatId :: nat where
  "freebie_chatId = 1195028505"

text \<open>What \<open>eventsFilter\<close> returns: \<open>{location, size, id}\<close>.\<close>

record file_info =
  fi_location :: file_location
  fi_size :: nat
  fi_id :: nat

text \<open>
  The loop of \<open>eventsFilter\<close>. \<open>sizes[sizes.length - 1]\<close> of an empty list is
  \<open>undefined\<close>, and reading its \<open>location\<close> throws a TypeError.
\<close>

fun freebie_updates :: "update list \<Rightarrow> file_info option result" where
  "freebie_updates [] = Returns None"
| "freebie_updates (UpdateOther # us) = freebie_updates us"
| "freebie_updates (UpdateNewChannelMessage m # us) =
     (if to_channel_id m \<noteq> Some freebie_chatId then freebie_updates us
      else if message_text m \<noteq> [] then freebie_updates us
      else case media m of
             None \<Rightarrow> freebie_updates us
           | Some MessageMediaOther \<Rightarrow> freebie_updates us
           | Some (MessageMediaPhoto p) \<Rightarrow>
               (case sizes p of
                  [] \<Rightarrow> Throws TypeError
                | s # ss \<Rightarrow>
                    (let l = last (sizes p)
                     in Returns (Some \<lparr>fi_location = location l, fi_size = psize l,
                                      fi_id = photo_id p\<rparr>))))"

definition freebie_eventsFilter :: "event \<Rightarrow> file_info option result" where
  "freebie_eventsFilter eventData =
     (case eventData of EventOther \<Rightarrow> Returns None | Updates updateArray \<Rightarrow> freebie_updates updateArray)"

text \<open>
  The update the image filter is after, in the words of the specification: a new
  channel message of the configured channel with a photo and an empty text.
\<close>

fun freebie_matches :: "update \<Rightarrow> bool" where
  "freebie_matches UpdateOther = False"
| "freebie_matches (UpdateNewChannelMessage m) =
     (to_channel_id m = Some freebie_chatId \<and> message_text m = []
      \<and> (case media m of Some (MessageMediaPhoto p) \<Rightarrow> True | _ \<Rightarrow> False))"

text \<open>
  What the outside answers during one run of a pipeline: the platform to the
  redemption request, the messaging service to \<open>loadImage\<close>, the file system to
  \<open>writeFileSync\<close> (\<open>Some\<close> error when it throws), the OCR engine to \<open>process\<close>
  (\<open>Inl\<close> an error, \<open>Inr\<close> the text, \<open>None\<close> when it never calls back).
\<close>

record env =
  purchase_reply :: "purchase_response option"
  image_reply :: "nat list promise"
  save_error :: "js_value option"
  ocr_reply :: "(js_value + jsstring) option"

text \<open>\<open>p.then(f)\<close>: \<open>f\<close> runs on the value of a resolved promise only.\<close>

definition then_promise ::
  "'a promise \<Rightarrow> ('a \<Rightarrow> world \<Rightarrow> world \<times> 'b promise) \<Rightarrow> world \<Rightarrow> world \<times> 'b promise" where
  "then_promise p f w =
     (case p of
        Resolved x \<Rightarrow> f x w
      | Rejected v \<Rightarrow> (w, Rejected v)
      | Pending \<Rightarrow> (w, Pending)
      | Uncaught e \<Rightarrow> (w, Uncaught e))"

text \<open>
  \<open>recognice\<close>. On an OCR error the callback first calls \<open>utils.error\<close>, which the
  \<open>utils\<close> module does not export: the call throws a TypeError inside the engine's
  callback and \<open>reject(err)\<close> is not reached.
\<close>

definition recognice :: "(js_value + jsstring) option \<Rightarrow> world \<Rightarrow> world \<times> jsstring promise" where
  "recognice ocr w =
     (case ocr of
        None \<Rightarrow> (w, Pending)
      | Some (Inl err) \<Rightarrow> (w, Uncaught TypeError)
      | Some (Inr text) \<Rightarrow>
          (let w1 = log_line (CdKeyScanned (replace_class (\<lambda>c. c = 0x0A) [] text)) w;
               cdKey = filterCdKeyText text
           in (log_line (CdKeyFiltered cdKey) w1, Resolved cdKey)))"

text \<open>
  The \<open>catch\<close> at the end of the chain logs \<open>ex.white\<close>: the string itself for a
  string, \<open>undefined\<close> for a number or an object, and a TypeError for \<open>undefined\<close>.
\<close>

definition freebie_catch :: "'a promise \<Rightarrow> world \<Rightarrow> world \<times> run_outcome" where
  "freebie_catch p w =
     (case p of
        Resolved x \<Rightarrow> (w, Completed)
      | Rejected ex \<Rightarrow>
          (case ex of
             Undefined \<Rightarrow> (w, UnhandledRejection TypeError)
           | Str s \<Rightarrow> (log_line (HandlerError (Some s)) w, Completed)
           | Num n \<Rightarrow> (log_line (HandlerError None) w, Completed)
           | ErrorObj m \<Rightarrow> (log_line (HandlerError None) w, Completed))
      | Pending \<Rightarrow> (w, NeverSettles)
      | Uncaught e \<Rightarrow> (w, UncaughtInCallback e))"

definition freebie_pipeline :: "env \<Rightarrow> file_info \<Rightarrow> world \<Rightarrow> world \<times> run_outcome" where
  "freebie_pipeline e fileInfo w =
     (case then_promise (image_reply e)
        (\<lambda>imageBuffer wa.
           case save_error e of
             Some err \<Rightarrow> (log_line (SavingImage (fi_id fileInfo)) wa, Rejected err)
           | None \<Rightarrow>
               (case recognice (ocr_reply e)
                       (log_line (ImageSaved (fi_id fileInfo))
                          (log_line (SavingImage (fi_id fileInfo)) wa)) of
                  (wb, p) \<Rightarrow> then_promise p (activate (purchase_reply e)) wb))
        (log_line (LoadingImage (fi_id fileInfo)) w) of
        (wc, p) \<Rightarrow> freebie_catch p wc)"

definition freebie_listener :: "env \<Rightarrow> event \<Rightarrow> world \<Rightarrow> world \<times> run_outcome" where
  "freebie_listener e eventData w =
     (case freebie_eventsFilter eventData of
        Throws err \<Rightarrow> (w, EscapesToDispatcher err)
      | Returns None \<Rightarrow> (w, Completed)
      | Returns (Some fileInfo) \<Rightarrow> freebie_pipeline e fileInfo w)"

section \<open>The event dispatcher (\<open>telegram/event-handler.js\<close>) and the start of the process\<close>

definition run_listener :: "env \<Rightarrow> event \<Rightarrow> handler \<Rightarrow> world \<Rightarrow> world \<times> run_outcome" where
  "run_listener e eventData h w =
     (case h of
        G2keysHandler \<Rightarrow> g2keys_listener (purchase_reply e) eventData w
      | FreebieSteamHandler \<Rightarrow> freebie_listener e eventData w)"

text \<open>
  \<open>eventEmitter.emit("event", data.message)\<close> calls the listeners in the order of their
  registration; a listener that throws ends the call, and the exception leaves \<open>emit\<close>
  into the dispatcher's callback. Each pipeline is run to its end before the next
  listener starts.
\<close>

fun emit :: "env \<Rightarrow> event \<Rightarrow> handler list \<Rightarrow> world \<Rightarrow> world \<times> run_outcome list" where
  "emit e eventData [] w = (w, [])"
| "emit e eventData (h # hs) w =
     (case run_listener e eventData h w of
        (w1, EscapesToDispatcher err) \<Rightarrow> (w1, [EscapesToDispatcher err])
      | (w1, r) \<Rightarrow> (case emit e eventData hs w1 of (w2, rs) \<Rightarrow> (w2, r # rs)))"

text \<open>
  \<open>loadModule\<close> for each file of the handler folder: \<open>require\<close> the module and call it
  with the emitter, which registers its listener. \<open>require_module\<close> is \<open>None\<close> for a
  path \<open>require\<close> throws on.
\<close>

fun load_modules :: "(string \<Rightarrow> handler option) \<Rightarrow> string list \<Rightarrow> world \<Rightarrow> world \<times> unit result" where
  "load_modules require_module [] w = (w, Returns ())"
| "load_modules require_module (f # fs) w =
     (case require_module (''../handler/'' @ f) of
        None \<Rightarrow> (w, Throws ModuleError)
      | Some h \<Rightarrow> load_modules require_module fs (w\<lparr>listeners := listeners w @ [h]\<rparr>))"

text \<open>
  \<open>loadHandlers\<close>. \<open>files\<close> is what \<open>fs.readdir\<close> hands to its callback: \<open>None\<close> when it
  reports an error, and then \<open>files.length\<close> throws inside the callback.
\<close>

definition loadHandlers ::
  "(string \<Rightarrow> handler option) \<Rightarrow> string list option \<Rightarrow> world \<Rightarrow> world \<times> nat promise" where
  "loadHandlers require_module files w =
     (let w1 = log_line ConnectingHandlers w
      in case files of
           None \<Rightarrow> (w1, Uncaught TypeError)
         | Some fs \<Rightarrow>
             (let handlersCount = length fs
              in if handlersCount = 0
                 then (log_line NoHandlersFound w1, Rejected (ErrorObj ''No event handlers found''))
                 else
                   (case load_modules require_module fs
                           (log_line (FoundHandlers handlersCount fs) w1) of
                      (w2, Throws e) \<Rightarrow> (w2, Uncaught e)
                    | (w2, Returns u) \<Rightarrow> (w2, Resolved handlersCount))))"

datatype process_status = Running | Exited | Crashed js_error | Stalled

text \<open>The \<open>catch\<close> at the end of the chain of \<open>index.js\<close>: log, then \<open>process.exit()\<close>.\<close>

definition runtime_error :: "js_value \<Rightarrow> world \<Rightarrow> world \<times> process_status" where
  "runtime_error err w = (log_line (RuntimeError err) w, Exited)"

text \<open>
  The promise chain of \<open>index.js\<close>: the platform login (which sets \<open>_ready\<close>), the
  messaging login, \<open>loadHandlers\<close>, \<open>startEventHandler\<close>. The two logins are external
  and enter as their outcomes.
\<close>

definition startup ::
  "unit promise \<Rightarrow> unit promise \<Rightarrow> (string \<Rightarrow> handler option) \<Rightarrow> string list option
    \<Rightarrow> world \<Rightarrow> world \<times> process_status" where
  "startup steam_init telegram_init require_module files w =
     (case steam_init of
        Rejected err \<Rightarrow> runtime_error err w
      | Pending \<Rightarrow> (w, Stalled)
      | Uncaught e \<Rightarrow> (w, Crashed e)
      | Resolved u \<Rightarrow>
          (case telegram_init of
             Rejected err \<Rightarrow> runtime_error err (log_line SteamReady (w\<lparr>ready := True\<rparr>))
           | Pending \<Rightarrow> (log_line SteamReady (w\<lparr>ready := True\<rparr>), Stalled)
           | Uncaught e \<Rightarrow> (log_line SteamReady (w\<lparr>ready := True\<rparr>), Crashed e)
           | Resolved u \<Rightarrow>
               (case loadHandlers require_module files
                       (log_line TelegramReady (log_line SteamReady (w\<lparr>ready := True\<rparr>))) of
                  (w1, Rejected err) \<Rightarrow> runtime_error err w1
                | (w1, Pending) \<Rightarrow> (w1, Stalled)
                | (w1, Uncaught e) \<Rightarrow> (w1, Crashed e)
                | (w1, Resolved n) \<Rightarrow>
                    (log_line LaunchComplete
                       (log_line HandlersReady (log_line EventsHandlerReady w1)), Running))))"

section \<open>The words of the specification\<close>

text \<open>A new channel message of channel \<open>ch\<close> with body \<open>s\<close> and no media.\<close>

definition new_message :: "nat \<Rightarrow> jsstring \<Rightarrow> update" where
  "new_message ch s = UpdateNewChannelMessage \<lparr>to_channel_id = Some ch, message_text = s, media = None\<rparr>"

text \<open>
  The body of an update the text filter is after (a new channel message of the
  configured channel); \<open>None\<close> for every other update.
\<close>

fun g2keys_body :: "update \<Rightarrow> jsstring option" where
  "g2keys_body UpdateOther = None"
| "g2keys_body (UpdateNewChannelMessage m) =
     (if to_channel_id m = Some g2keys_chatId then Some (message_text m) else None)"

text \<open>
  The bodies of the new channel messages of the configured channel that an event
  carries, in the order of its updates.
\<close>

fun g2keys_bodies :: "event \<Rightarrow> jsstring list" where
  "g2keys_bodies EventOther = []"
| "g2keys_bodies (Updates us) = List.map_filter g2keys_body us"

text \<open>Five consecutive characters of the extraction class somewhere in the string.\<close>

fun has_key_run :: "jsstring \<Rightarrow> bool" where
  "has_key_run [] = False"
| "has_key_run (c # cs) = (is_key_run (take 5 (c # cs)) \<or> has_key_run cs)"

text \<open>
  \<open>r\<close> is the first maximal run of a body \<open>pre @ r @ post\<close>: a run of at least five
  class characters, which no class character precedes or follows, with no run of five
  before it.
\<close>

definition first_maximal_run :: "jsstring \<Rightarrow> jsstring \<Rightarrow> jsstring \<Rightarrow> bool" where
  "first_maximal_run pre r post \<longleftrightarrow>
     is_key_run r \<and> (pre = [] \<or> \<not> key_char (last pre))
     \<and> (post = [] \<or> \<not> key_char (hd post)) \<and> \<not> has_key_run pre"

section \<open>Properties of the normalisation\<close>

lemma replace_class_delete: "replace_class cls [] s = filter (\<lambda>c. \<not> cls c) s"
  by (induction s) (simp_all add: replace_class_def)

lemma replace_class_single: "replace_class cls [d] s = map (\<lambda>c. if cls c then d else c) s"
  by (induction s) (simp_all add: replace_class_def)

lemma filterCdKeyText_eq:
  "filterCdKeyText s = map dash_of (filter (\<lambda>c. is_word_char c \<or> c = EM_DASH \<or> c = DASH) s)"
  by (induction s)
    (auto simp: filterCdKeyText_def replace_class_delete replace_class_single
      not_word_or_dash_def any_dash_def dash_of_def)

lemma em_dash_not_word: "\<not> is_word_char EM_DASH"
  by (simp add: is_word_char_def is_upper_def is_lower_def is_digit_def EM_DASH_def)

lemma em_dash_not_dash: "EM_DASH \<noteq> DASH"
  by (simp add: EM_DASH_def DASH_def)

lemma key_char_survivor:
  "key_char c \<Longrightarrow> is_word_char c \<or> c = EM_DASH \<or> c = DASH \<Longrightarrow> alnum_or_dash (dash_of c)"
  by (auto simp: key_char_def is_word_char_def alnum_or_dash_def dash_of_def
      is_upper_def is_lower_def is_digit_def EM_DASH_def DASH_def)

text \<open>
  The underscore is a word character, so in general it survives the normalisation;
  a run of the extraction pattern has none.
\<close>

lemma normalize_keeps_underscore: "filterCdKeyText (js ''AB_CD'') = js ''AB_CD''"
  by (simp add: filterCdKeyText_def replace_class_def not_word_or_dash_def any_dash_def
      is_word_char_def is_upper_def is_lower_def is_digit_def js_def EM_DASH_def DASH_def)

lemma key_run_survivors:
  assumes "key_char c"
  shows "(is_word_char c \<or> c = EM_DASH \<or> c = DASH) \<longleftrightarrow> c \<noteq> 0x20"
  using assms
  by (auto simp: key_char_def is_word_char_def is_upper_def is_lower_def is_digit_def
      EM_DASH_def DASH_def)

text \<open>
  C6. For every string \<open>s\<close> that is a run of the extraction pattern (at least five
  characters, all from A-Z, 0-9, space, dash, em-dash), the normalisation removes
  every character that is not a word character, a dash or an em-dash (in such a run:
  exactly the spaces) and turns every em-dash into a dash; the normalised string
  holds only characters of \<open>[A-Za-z0-9-]\<close>, and it keeps the surviving characters
  in their order: it is a subsequence of \<open>s\<close> with every em-dash read as a dash.
\<close>

theorem normalize_key_run:
  assumes "is_key_run s"
  shows "list_all alnum_or_dash (filterCdKeyText s)
    \<and> subseq (filterCdKeyText s) (map dash_of s)
    \<and> filterCdKeyText s =
        map dash_of (filter (\<lambda>c. is_word_char c \<or> c = EM_DASH \<or> c = DASH) s)
    \<and> filterCdKeyText s = map dash_of (filter (\<lambda>c. c \<noteq> 0x20) s)"
proof (intro conjI)
  from assms have all: "\<forall>c \<in> set s. key_char c"
    by (simp add: is_key_run_def list_all_iff)
  then show "list_all alnum_or_dash (filterCdKeyText s)"
    by (auto simp: filterCdKeyText_eq list_all_iff intro: key_char_survivor)
  have "subseq (filter (\<lambda>c. is_word_char c \<or> c = EM_DASH \<or> c = DASH) s) s"
    by simp
  then show "subseq (filterCdKeyText s) (map dash_of s)"
    unfolding filterCdKeyText_eq by (rule subseq_map)
  show "filterCdKeyText s =
      map dash_of (filter (\<lambda>c. is_word_char c \<or> c = EM_DASH \<or> c = DASH) s)"
    by (rule filterCdKeyText_eq)
  from all have "filter (\<lambda>c. is_word_char c \<or> c = EM_DASH \<or> c = DASH) s
      = filter (\<lambda>c. c \<noteq> 0x20) s"
    by (intro filter_cong refl) (simp add: key_run_survivors)
  then show "filterCdKeyText s = map dash_of (filter (\<lambda>c. c \<noteq> 0x20) s)"
    by (simp add: filterCdKeyText_eq)
qed

theorem normalize_key_run_witness:
  "is_key_run (js ''AB12C'' @ [EM_DASH] @ js ''DE34F-GH 56I'')
   \<and> filterCdKeyText (js ''AB12C'' @ [EM_DASH] @ js ''DE34F-GH 56I'') = js ''AB12C-DE34F-GH56I''
   \<and> list_all alnum_or_dash (filterCdKeyText (js ''AB12C'' @ [EM_DASH] @ js ''DE34F-GH 56I''))
   \<and> subseq (filterCdKeyText (js ''AB12C'' @ [EM_DASH] @ js ''DE34F-GH 56I''))
        (map dash_of (js ''AB12C'' @ [EM_DASH] @ js ''DE34F-GH 56I''))"
proof -
  have run: "is_key_run (js ''AB12C'' @ [EM_DASH] @ js ''DE34F-GH 56I'')"
    by (simp add: is_key_run_def key_char_def js_def is_upper_def is_digit_def
        EM_DASH_def DASH_def)
  have val: "map dash_of (filter (\<lambda>c. c \<noteq> 0x20) (js ''AB12C'' @ [EM_DASH] @ js ''DE34F-GH 56I''))
      = js ''AB12C-DE34F-GH56I''"
    by (simp add: dash_of_def js_def EM_DASH_def DASH_def)
  note th = normalize_key_run [OF run]
  from th have "filterCdKeyText (js ''AB12C'' @ [EM_DASH] @ js ''DE34F-GH 56I'')
      = map dash_of (filter (\<lambda>c. c \<noteq> 0x20) (js ''AB12C'' @ [EM_DASH] @ js ''DE34F-GH 56I''))"
    by blast
  then have "filterCdKeyText (js ''AB12C'' @ [EM_DASH] @ js ''DE34F-GH 56I'')
      = js ''AB12C-DE34F-GH56I''"
    using val by (rule trans)
  with run th show ?thesis by blast
qed

text \<open>
  C7. The normalisation is idempotent: normalising a normalised string changes nothing.
\<close>

theorem normalize_idempotent: "filterCdKeyText (filterCdKeyText s) = filterCdKeyText s"
proof -
  let ?keep = "\<lambda>c. is_word_char c \<or> c = EM_DASH \<or> c = DASH"
  have keep: "?keep (dash_of c)" if "?keep c" for c
    using that by (auto simp: dash_of_def)
  have idem: "dash_of (dash_of c) = dash_of c" for c
    by (simp add: dash_of_def em_dash_not_dash)
  have "filter ?keep (map dash_of (filter ?keep s)) = map dash_of (filter ?keep s)"
    by (rule filter_True) (use keep in auto)
  then show ?thesis
    by (simp add: filterCdKeyText_eq idem)
qed

section \<open>Properties of the key activator\<close>

lemmas error_code_defs =
  EC_ACTIVATION_FAILED_def EC_ACTIVATION_FAILED_ALREADY_ACTIVATED_def EC_NOT_INITED_def
  EC_AUTH_FAILED_def EC_AUTH_CODE_REQUIRED_def

text \<open>
  The older module \<open>steam/steam.js\<close> maps the detail codes differently: 53 is its
  "already activated", 15 is generic.
\<close>

lemma steam_js_errorCode_53:
  "steam_js_errorCode \<lparr>eresult = 2, purchase_result_details = 53, purchase_receipt_info = None\<rparr>
     = EC_ACTIVATION_FAILED_ALREADY_ACTIVATED
   \<and> steam_js_errorCode \<lparr>eresult = 2, purchase_result_details = 15, purchase_receipt_info = None\<rparr>
     = EC_ACTIVATION_FAILED"
  by (simp add: steam_js_errorCode_def)

text \<open>
  C1, as stated, fails: for a response that is not OK and has detail code 9, with the
  session ready, \<open>activate\<close> rejects with the generic code \<open>EC_ACTIVATION_FAILED\<close>,
  which is not the kind \<open>ALREADY_OWNED\<close> the claim names for 9.
\<close>

theorem activate_detail_9_counterexample:
  "snd (activate (Some \<lparr>eresult = 2, purchase_result_details = 9, purchase_receipt_info = Some []\<rparr>)
         (js ''AAAAA-BBBBB-CCCCC'') (initial_world\<lparr>ready := True\<rparr>))
     = Rejected (Num EC_ACTIVATION_FAILED)
   \<and> rejected_kind
        (snd (activate (Some \<lparr>eresult = 2, purchase_result_details = 9, purchase_receipt_info = Some []\<rparr>)
           (js ''AAAAA-BBBBB-CCCCC'') (initial_world\<lparr>ready := True\<rparr>)))
     \<noteq> Some (spec_reject_kind 9)"
  by (simp add: activate_def activateKey_callback_def details_switch_def getGameName_def
      initial_world_def EResult_OK_def rejected_kind_def kind_of_value_def spec_reject_kind_def
      error_code_defs log_line_def Let_def)

text \<open>
  C1, amended. For every response that is not OK, with the session ready and the
  receipt information readable where the code reads it (detail codes 9 and 15, whose
  log lines print the product name), \<open>activate\<close> rejects with a code that the detail
  code alone determines: \<open>ALREADY_ACTIVATED\<close> for 15 and the generic
  \<open>ACTIVATION_FAILED\<close> for every other detail code, 9, 14 and 53 included. In every
  case the trimmed key is handed to the session once and two lines are logged, the
  attempt and a line for the failure; 9 (already owned) and 14 (invalid) differ from
  the generic case in that line only.
\<close>

theorem activate_reject_by_details:
  assumes "ready w" and "eresult r \<noteq> EResult_OK"
    and "purchase_result_details r = 9 \<or> purchase_result_details r = 15
          \<longrightarrow> purchase_receipt_info r \<noteq> None"
  shows "snd (activate (Some r) cdKey w) =
           Rejected (Num (if purchase_result_details r = 15
                          then EC_ACTIVATION_FAILED_ALREADY_ACTIVATED else EC_ACTIVATION_FAILED))
       \<and> rejected_kind (snd (activate (Some r) cdKey w)) =
           Some (if purchase_result_details r = 15 then ALREADY_ACTIVATED else ACTIVATION_FAILED)
       \<and> (\<exists>line. fst (activate (Some r) cdKey w) =
             w\<lparr>requests := requests w @ [js_trim cdKey],
               logged := logged w @ [ActivationAttempt (js_trim cdKey), line]\<rparr>
           \<and> (purchase_result_details r = 9 \<longrightarrow>
                (\<exists>name. getGameName r = Returns name
                   \<and> line = AlreadyOwnLine (js_trim cdKey) name 9))
           \<and> (purchase_result_details r = 14 \<longrightarrow> line = InvalidLine (js_trim cdKey) 14)
           \<and> (purchase_result_details r = 15 \<longrightarrow>
                (\<exists>name. getGameName r = Returns name
                   \<and> line = AlreadyActivatedLine (js_trim cdKey) name 15))
           \<and> (purchase_result_details r \<noteq> 9 \<and> purchase_result_details r \<noteq> 14
                \<and> purchase_result_details r \<noteq> 15 \<longrightarrow>
                line = ActivationFailedLine (js_trim cdKey) (purchase_result_details r)))"
proof -
  let ?d = "purchase_result_details r"
  let ?k = "js_trim cdKey"
  let ?code = "if ?d = 15 then EC_ACTIVATION_FAILED_ALREADY_ACTIVATED else EC_ACTIVATION_FAILED"
  have "\<exists>line. details_switch ?k r = Returns (?code, line)
           \<and> (?d = 9 \<longrightarrow> (\<exists>name. getGameName r = Returns name \<and> line = AlreadyOwnLine ?k name 9))
           \<and> (?d = 14 \<longrightarrow> line = InvalidLine ?k 14)
           \<and> (?d = 15 \<longrightarrow>
                (\<exists>name. getGameName r = Returns name \<and> line = AlreadyActivatedLine ?k name 15))
           \<and> (?d \<noteq> 9 \<and> ?d \<noteq> 14 \<and> ?d \<noteq> 15 \<longrightarrow> line = ActivationFailedLine ?k ?d)"
  proof (cases "?d = 9 \<or> ?d = 15")
    case True
    with assms(3) obtain items where "purchase_receipt_info r = Some items"
      by auto
    then obtain name where "getGameName r = Returns name"
      by (cases items) (simp_all add: getGameName_def)
    with True show ?thesis
      by (auto simp: details_switch_def Let_def)
  next
    case False
    then show ?thesis
      by (simp add: details_switch_def Let_def)
  qed
  then obtain line where sw: "details_switch ?k r = Returns (?code, line)"
    and line: "?d = 9 \<longrightarrow> (\<exists>name. getGameName r = Returns name \<and> line = AlreadyOwnLine ?k name 9)"
      "?d = 14 \<longrightarrow> line = InvalidLine ?k 14"
      "?d = 15 \<longrightarrow>
         (\<exists>name. getGameName r = Returns name \<and> line = AlreadyActivatedLine ?k name 15)"
      "?d \<noteq> 9 \<and> ?d \<noteq> 14 \<and> ?d \<noteq> 15 \<longrightarrow> line = ActivationFailedLine ?k ?d"
    by blast
  from sw assms(1,2) have act: "activate (Some r) cdKey w =
      (w\<lparr>requests := requests w @ [?k], logged := logged w @ [ActivationAttempt ?k, line]\<rparr>,
       Rejected (Num ?code))"
    by (simp add: activate_def activateKey_callback_def Let_def log_line_def)
  have kind: "rejected_kind (Rejected (Num ?code) :: jsstring promise) =
      Some (if ?d = 15 then ALREADY_ACTIVATED else ACTIVATION_FAILED)"
    by (simp add: rejected_kind_def kind_of_value_def error_code_defs)
  from line show ?thesis
    unfolding act fst_conv snd_conv kind by blast
qed

theorem activate_reject_by_details_witness:
  "ready (initial_world\<lparr>ready := True\<rparr>)
   \<and> eresult \<lparr>eresult = 2, purchase_result_details = 15,
        purchase_receipt_info = Some [js ''Game'']\<rparr> \<noteq> EResult_OK
   \<and> snd (activate (Some \<lparr>eresult = 2, purchase_result_details = 15,
        purchase_receipt_info = Some [js ''Game'']\<rparr>) (js ''AAAAA-BBBBB'')
        (initial_world\<lparr>ready := True\<rparr>)) = Rejected (Num EC_ACTIVATION_FAILED_ALREADY_ACTIVATED)
   \<and> snd (activate (Some \<lparr>eresult = 2, purchase_result_details = 53,
        purchase_receipt_info = None\<rparr>) (js ''AAAAA-BBBBB'')
        (initial_world\<lparr>ready := True\<rparr>)) = Rejected (Num EC_ACTIVATION_FAILED)
   \<and> snd (activate (Some \<lparr>eresult = 2, purchase_result_details = 9,
        purchase_receipt_info = Some []\<rparr>) (js ''AAAAA-BBBBB'')
        (initial_world\<lparr>ready := True\<rparr>)) = Rejected (Num EC_ACTIVATION_FAILED)
   \<and> fst (activate (Some \<lparr>eresult = 2, purchase_result_details = 14,
        purchase_receipt_info = None\<rparr>) (js ''AAAAA-BBBBB'')
        (initial_world\<lparr>ready := True\<rparr>))
      = initial_world\<lparr>ready := True, requests := [js_trim (js ''AAAAA-BBBBB'')],
          logged := [ActivationAttempt (js_trim (js ''AAAAA-BBBBB'')),
                     InvalidLine (js_trim (js ''AAAAA-BBBBB'')) 14]\<rparr>"
proof -
  let ?w = "initial_world\<lparr>ready := True\<rparr>"
  let ?k = "js ''AAAAA-BBBBB''"
  have r: "ready ?w"
    by simp
  have e: "eresult \<lparr>eresult = 2, purchase_result_details = d,
        purchase_receipt_info = i\<rparr> \<noteq> EResult_OK" for d i
    by (simp add: EResult_OK_def)
  have w: "requests ?w = []" "logged ?w = []"
    by (simp_all add: initial_world_def)
  from activate_reject_by_details [OF r e, of 15 "Some [js ''Game'']" ?k]
  have a15: "snd (activate (Some \<lparr>eresult = 2, purchase_result_details = 15,
        purchase_receipt_info = Some [js ''Game'']\<rparr>) ?k ?w)
      = Rejected (Num EC_ACTIVATION_FAILED_ALREADY_ACTIVATED)"
    by simp
  from activate_reject_by_details [OF r e, of 53 None ?k]
  have a53: "snd (activate (Some \<lparr>eresult = 2, purchase_result_details = 53,
        purchase_receipt_info = None\<rparr>) ?k ?w) = Rejected (Num EC_ACTIVATION_FAILED)"
    by simp
  from activate_reject_by_details [OF r e, of 9 "Some []" ?k]
  have a9: "snd (activate (Some \<lparr>eresult = 2, purchase_result_details = 9,
        purchase_receipt_info = Some []\<rparr>) ?k ?w) = Rejected (Num EC_ACTIVATION_FAILED)"
    by simp
  from activate_reject_by_details [OF r e, of 14 None ?k]
  obtain line where "fst (activate (Some \<lparr>eresult = 2, purchase_result_details = 14,
        purchase_receipt_info = None\<rparr>) ?k ?w) =
      ?w\<lparr>requests := requests ?w @ [js_trim ?k],
         logged := logged ?w @ [ActivationAttempt (js_trim ?k), line]\<rparr>"
    and "line = InvalidLine (js_trim ?k) 14"
    by auto
  with w have a14: "fst (activate (Some \<lparr>eresult = 2, purchase_result_details = 14,
        purchase_receipt_info = None\<rparr>) ?k ?w)
      = initial_world\<lparr>ready := True, requests := [js_trim ?k],
          logged := [ActivationAttempt (js_trim ?k), InvalidLine (js_trim ?k) 14]\<rparr>"
    by simp
  from r e a15 a53 a9 a14 show ?thesis
    by blast
qed

text \<open>
  C3. For every input string, \<open>activate\<close> called while the session is not ready
  rejects with \<open>EC_NOT_INITED\<close> (the kind \<open>NOT_INITIALIZED\<close>); it logs one line and
  hands no product code to the session; and the rejection ends in the \<open>catch\<close> of
  either handler, so nothing reaches the top level of the process.
\<close>

theorem activate_not_ready:
  assumes "\<not> ready w"
  shows "activate reply cdKey w = (log_line SteamNotInitialised w, Rejected (Num EC_NOT_INITED))
    \<and> rejected_kind (snd (activate reply cdKey w)) = Some NOT_INITIALIZED
    \<and> requests (fst (activate reply cdKey w)) = requests w
    \<and> g2keys_catch (snd (activate reply cdKey w)) = Completed
    \<and> snd (freebie_catch (snd (activate reply cdKey w)) (fst (activate reply cdKey w))) = Completed"
  using assms
  by (simp add: activate_def rejected_kind_def kind_of_value_def g2keys_catch_def freebie_catch_def
      log_line_def error_code_defs)

theorem activate_not_ready_witness:
  "\<not> ready initial_world
   \<and> snd (activate (Some \<lparr>eresult = 1, purchase_result_details = 0,
        purchase_receipt_info = Some []\<rparr>) (js ''AAAAA-BBBBB'') initial_world)
       = Rejected (Num EC_NOT_INITED)
   \<and> requests (fst (activate (Some \<lparr>eresult = 1, purchase_result_details = 0,
        purchase_receipt_info = Some []\<rparr>) (js ''AAAAA-BBBBB'') initial_world)) = []"
proof -
  have h: "\<not> ready initial_world"
    by (simp add: initial_world_def)
  have r: "requests initial_world = []"
    by (simp add: initial_world_def)
  from h r activate_not_ready [OF h, of
      "Some \<lparr>eresult = 1, purchase_result_details = 0, purchase_receipt_info = Some []\<rparr>"
      "js ''AAAAA-BBBBB''"]
  show ?thesis by (simp add: log_line_def)
qed

section \<open>Properties of the text filter\<close>

lemma g2keys_updates_none:
  assumes "\<forall>u \<in> set us. g2keys_body u = None \<or> g2keys_body u = Some (lastMsg w)"
  shows "g2keys_updates us w = (w, None)"
  using assms by (induction us w rule: g2keys_updates.induct) (auto split: if_splits)

text \<open>
  C10. \<open>lastMsg\<close> starts as the empty string, so while it is still empty an event
  whose new channel messages of the configured channel all have an empty body yields
  no extraction: the filter returns \<open>undefined\<close>, leaves its state as it is, and the
  listener ends without a request. This holds for the first such event after the
  start of the process.
\<close>

theorem empty_first_message_suppressed:
  assumes "lastMsg w = []"
    and "\<forall>u \<in> set us. g2keys_body u = None \<or> g2keys_body u = Some []"
  shows "g2keys_eventsFilter (Updates us) w = (w, None)
     \<and> g2keys_listener reply (Updates us) w = (w, Completed)"
  using assms g2keys_updates_none [of us w]
  by (simp add: g2keys_eventsFilter_def g2keys_listener_def)

theorem empty_first_message_suppressed_witness:
  "lastMsg initial_world = []
   \<and> g2keys_body (new_message g2keys_chatId []) = Some []
   \<and> g2keys_eventsFilter (Updates [new_message g2keys_chatId []]) initial_world
       = (initial_world, None)"
proof -
  have h: "lastMsg initial_world = []"
    by (simp add: initial_world_def)
  have b: "g2keys_body (new_message g2keys_chatId []) = Some []"
    by (simp add: new_message_def)
  then have a: "\<forall>u \<in> set [new_message g2keys_chatId []].
      g2keys_body u = None \<or> g2keys_body u = Some []"
    by simp
  from h b empty_first_message_suppressed [OF h a] show ?thesis by simp
qed

section \<open>Properties of the extraction\<close>

lemmas char_defs = key_char_def is_upper_def is_lower_def is_digit_def is_word_char_def
  EM_DASH_def DASH_def is_js_space_def

lemma takeWhile_long_prefix:
  assumes "5 \<le> length (takeWhile P xs)"
  shows "5 \<le> length xs \<and> list_all P (take 5 xs)"
proof -
  have "take 5 (takeWhile P xs @ dropWhile P xs) = take 5 (takeWhile P xs)"
    using assms by (simp del: takeWhile_dropWhile_id)
  then have t: "take 5 xs = take 5 (takeWhile P xs)"
    by simp
  have "set (take 5 (takeWhile P xs)) \<subseteq> set (takeWhile P xs)" by (rule set_take_subset)
  then have "list_all P (take 5 xs)"
    unfolding t list_all_iff by (auto dest: set_takeWhileD)
  moreover have "length (takeWhile P xs) \<le> length xs" by (rule length_takeWhile_le)
  ultimately show ?thesis using assms by simp
qed

lemma short_run_in_prefix:
  assumes "\<not> has_key_run (p # ps)" and "\<not> key_char (last (p # ps))"
  shows "\<not> 5 \<le> length (takeWhile key_char ((p # ps) @ rest))"
proof
  assume long: "5 \<le> length (takeWhile key_char ((p # ps) @ rest))"
  have "last (p # ps) \<in> set (p # ps)" by (rule last_in_set) simp
  then have "takeWhile key_char ((p # ps) @ rest) = takeWhile key_char (p # ps)"
    using assms(2) by (rule takeWhile_append1)
  with long have "5 \<le> length (takeWhile key_char (p # ps))" by simp
  then have "5 \<le> length (p # ps) \<and> list_all key_char (take 5 (p # ps))"
    by (rule takeWhile_long_prefix)
  then have "is_key_run (take 5 (p # ps))"
    by (simp add: is_key_run_def)
  with assms(1) show False by simp
qed

lemma key_runs_skip:
  assumes "\<not> 5 \<le> length (takeWhile key_char (c # cs))"
  shows "key_runs (c # cs) = key_runs cs"
  using assms by (simp add: Let_def)

lemma key_runs_hit:
  assumes "5 \<le> length (takeWhile key_char (c # cs))"
  shows "key_runs (c # cs) = takeWhile key_char (c # cs) # key_runs (dropWhile key_char (c # cs))"
  using assms by (simp add: Let_def)

lemma key_runs_first:
  assumes "first_maximal_run pre r post"
  shows "\<exists>rs. key_runs (pre @ r @ post) = r # rs"
  using assms
proof (induction pre)
  case Nil
  then have run: "5 \<le> length r" "\<forall>c \<in> set r. key_char c"
    and post: "post = [] \<or> \<not> key_char (hd post)"
    by (simp_all add: first_maximal_run_def is_key_run_def list_all_iff)
  from post have "takeWhile key_char post = []"
    by (cases post) auto
  with run(2) have tw: "takeWhile key_char (r @ post) = r"
    by (simp add: takeWhile_append2)
  from run(1) obtain c cs where r: "r @ post = c # cs"
    by (cases r) auto
  with tw run(1) have "key_runs (c # cs) = r # key_runs (dropWhile key_char (c # cs))"
    using key_runs_hit [of c cs] by simp
  with r show ?case by simp
next
  case (Cons p ps)
  then have a: "\<not> has_key_run (p # ps)" "\<not> key_char (last (p # ps))"
    by (simp_all add: first_maximal_run_def)
  then have "\<not> 5 \<le> length (takeWhile key_char ((p # ps) @ r @ post))"
    by (rule short_run_in_prefix)
  then have skip: "key_runs ((p # ps) @ r @ post) = key_runs (ps @ r @ post)"
    using key_runs_skip [of p "ps @ r @ post"] by simp
  from Cons.prems a have "first_maximal_run ps r post"
    by (auto simp: first_maximal_run_def)
  with Cons.IH skip show ?case by simp
qed

lemma example_runs:
  "key_runs (js ''Get your key: AB12C-DE34F-GH56I now!'') = [js '' AB12C-DE34F-GH56I '']"
  by (simp add: js_def char_defs)

lemma example_trim: "js_trim (js '' AB12C-DE34F-GH56I '') = js ''AB12C-DE34F-GH56I''"
  by (simp add: js_def js_trim_def char_defs)

lemma example_first_run:
  "first_maximal_run (js ''Get your key:'') (js '' AB12C-DE34F-GH56I '') (js ''now!'')"
  by (simp add: first_maximal_run_def is_key_run_def js_def char_defs)

lemma example_parse:
  "snd (parseCdKey (js ''Get your key: AB12C-DE34F-GH56I now!'') w)
     = Returns (Some (js ''AB12C-DE34F-GH56I''))"
  by (simp add: parseCdKey_def js_match_g_def example_runs example_trim Let_def)

text \<open>
  C5, as stated, fails in its general half: in the body of the example the first
  maximal run of class characters is the key with the space before and the space
  after it (the space is a character of the class), and that run is not what
  \<open>parseCdKey\<close> returns.
\<close>

theorem parseCdKey_run_counterexample:
  "first_maximal_run (js ''Get your key:'') (js '' AB12C-DE34F-GH56I '') (js ''now!'')
   \<and> js ''Get your key:'' @ js '' AB12C-DE34F-GH56I '' @ js ''now!''
       = js ''Get your key: AB12C-DE34F-GH56I now!''
   \<and> snd (parseCdKey (js ''Get your key: AB12C-DE34F-GH56I now!'') initial_world)
       \<noteq> Returns (Some (js '' AB12C-DE34F-GH56I ''))"
  by (simp add: example_first_run example_parse) (simp add: js_def)

text \<open>
  C5, amended. From a body whose first (leftmost) maximal run of at least five
  characters of the class A-Z, 0-9, space, dash, em-dash is \<open>r\<close>, the text filter
  extracts \<open>r\<close> with the white space at its two ends trimmed; for the body
  "Get your key: AB12C-DE34F-GH56I now!" the extracted key is exactly
  "AB12C-DE34F-GH56I".
\<close>

theorem parseCdKey_first_run:
  assumes "first_maximal_run pre r post"
  shows "snd (parseCdKey (pre @ r @ post) w) = Returns (Some (js_trim r))
    \<and> snd (parseCdKey (js ''Get your key: AB12C-DE34F-GH56I now!'') w)
        = Returns (Some (js ''AB12C-DE34F-GH56I''))"
proof -
  from key_runs_first [OF assms] obtain rs where "key_runs (pre @ r @ post) = r # rs" ..
  then show ?thesis
    by (simp add: parseCdKey_def js_match_g_def Let_def example_runs example_trim)
qed

theorem parseCdKey_first_run_witness:
  "first_maximal_run (js ''Get your key:'') (js '' AB12C-DE34F-GH56I '') (js ''now!'')
   \<and> snd (parseCdKey (js ''Get your key:'' @ js '' AB12C-DE34F-GH56I '' @ js ''now!'')
        initial_world) = Returns (Some (js ''AB12C-DE34F-GH56I''))"
  using example_first_run parseCdKey_first_run [OF example_first_run, of initial_world]
  by (simp add: example_trim)

lemma no_runs_hello: "key_runs (js ''hello'') = []"
  by (simp add: js_def char_defs)

lemma g2keys_no_run_escapes:
  assumes "key_runs b = []" and "lastMsg w \<noteq> b"
  shows "snd (g2keys_listener reply (Updates [new_message g2keys_chatId b]) w)
     = EscapesToDispatcher TypeError"
  using assms
  by (simp add: g2keys_listener_def g2keys_eventsFilter_def new_message_def parseCdKey_def
      js_match_g_def Let_def)

text \<open>
  C2 does not hold of the code. A new channel message of the text filter's channel
  with the body "hello", which has no run of the pattern, makes \<open>match\<close> return
  \<open>null\<close>; \<open>parseCdKey\<close> reads \<open>null.length\<close>, and the TypeError leaves the
  listener, and \<open>emit\<close>, into the dispatcher's callback.
\<close>

theorem g2keys_no_match_escapes:
  "g2keys_listener reply (Updates [new_message g2keys_chatId (js ''hello'')]) initial_world
     = (log_line (ProbablyKeys None) (initial_world\<lparr>lastMsg := js ''hello''\<rparr>),
        EscapesToDispatcher TypeError)
   \<and> snd (emit e (Updates [new_message g2keys_chatId (js ''hello'')])
        [FreebieSteamHandler, G2keysHandler] initial_world)
     = [Completed, EscapesToDispatcher TypeError]"
proof -
  have ne: "[] \<noteq> js ''hello''"
    by (simp add: js_def)
  have chats: "freebie_chatId \<noteq> g2keys_chatId"
    by (simp add: g2keys_chatId_def freebie_chatId_def)
  from ne chats show ?thesis
    by (simp add: g2keys_listener_def g2keys_eventsFilter_def new_message_def parseCdKey_def
        js_match_g_def no_runs_hello Let_def initial_world_def run_listener_def
        freebie_listener_def freebie_eventsFilter_def)
qed

section \<open>Properties of the deduplication\<close>

lemma g2keys_updates_find:
  "g2keys_updates us w =
     (case find (\<lambda>b. b \<noteq> lastMsg w) (List.map_filter g2keys_body us) of
        None \<Rightarrow> (w, None)
      | Some b \<Rightarrow> (w\<lparr>lastMsg := b\<rparr>, Some b))"
  by (induction us w rule: g2keys_updates.induct) (auto simp: map_filter_simps)

lemma find_one_value:
  assumes "set bs = {b}"
  shows "find P bs = (if P b then Some b else None)"
proof (cases "P b")
  case True
  from assms obtain x xs where "bs = x # xs" and "x = b"
    by (cases bs) auto
  with True show ?thesis by simp
next
  case False
  with assms have "\<not> (\<exists>x. x \<in> set bs \<and> P x)" by simp
  then have "find P bs = None" by (simp add: find_None_iff)
  with False show ?thesis by simp
qed

lemma g2keys_filter_body:
  assumes "set (g2keys_bodies e) = {b}"
  shows "g2keys_eventsFilter e w =
     (if lastMsg w \<noteq> b then (w\<lparr>lastMsg := b\<rparr>, Some b) else (w, None))"
proof (cases e)
  case EventOther
  with assms show ?thesis by simp
next
  case (Updates us)
  with assms have "set (List.map_filter g2keys_body us) = {b}" by simp
  then have "find (\<lambda>x. x \<noteq> lastMsg w) (List.map_filter g2keys_body us)
      = (if b \<noteq> lastMsg w then Some b else None)"
    by (rule find_one_value)
  with Updates show ?thesis
    by (auto simp: g2keys_eventsFilter_def g2keys_updates_find)
qed

lemma parseCdKey_lastMsg: "lastMsg (fst (parseCdKey s w)) = lastMsg w"
  by (simp add: parseCdKey_def Let_def log_line_def split: option.splits list.splits)

lemma activateKey_callback_lastMsg: "lastMsg (fst (activateKey_callback k r w)) = lastMsg w"
  by (simp add: activateKey_callback_def log_line_def split: result.splits prod.splits)

lemma activate_lastMsg: "lastMsg (fst (activate reply k w)) = lastMsg w"
  by (simp add: activate_def Let_def log_line_def activateKey_callback_lastMsg
      split: option.splits)

lemma g2keys_extraction_lastMsg:
  assumes "set (g2keys_bodies e) = {b}"
  shows "lastMsg (fst (g2keys_extraction e w)) = b"
  using parseCdKey_lastMsg [of b "w\<lparr>lastMsg := b\<rparr>"]
  by (simp add: g2keys_extraction_def g2keys_filter_body [OF assms])

lemma g2keys_listener_extraction:
  "g2keys_listener reply e w =
     (case g2keys_extraction e w of
        (w2, Throws err) \<Rightarrow> (w2, EscapesToDispatcher err)
      | (w2, Returns None) \<Rightarrow> (w2, Completed)
      | (w2, Returns (Some k)) \<Rightarrow>
          (case activate reply k w2 of (w3, p) \<Rightarrow> (w3, g2keys_catch p)))"
  by (simp add: g2keys_listener_def g2keys_extraction_def
      split: prod.splits option.splits result.splits)

lemma g2keys_listener_lastMsg:
  assumes "set (g2keys_bodies e) = {b}"
  shows "lastMsg (fst (g2keys_listener reply e w)) = b"
proof -
  obtain w2 res where ex: "g2keys_extraction e w = (w2, res)"
    by (cases "g2keys_extraction e w")
  with g2keys_extraction_lastMsg [OF assms, of w] have l: "lastMsg w2 = b"
    by simp
  show ?thesis
  proof (cases res)
    case (Throws err)
    with ex l show ?thesis by (simp add: g2keys_listener_extraction)
  next
    case (Returns c)
    show ?thesis
    proof (cases c)
      case None
      with Returns ex l show ?thesis by (simp add: g2keys_listener_extraction)
    next
      case (Some k)
      obtain w3 p where act: "activate reply k w2 = (w3, p)"
        by (cases "activate reply k w2")
      with activate_lastMsg [of reply k w2] l have "lastMsg w3 = b"
        by simp
      with Some Returns ex act show ?thesis
        by (simp add: g2keys_listener_extraction)
    qed
  qed
qed

lemma parseCdKey_run:
  assumes "first_maximal_run pre r post"
  shows "snd (parseCdKey (pre @ r @ post) w) = Returns (Some (js_trim r))"
proof -
  from key_runs_first [OF assms] obtain rs where "key_runs (pre @ r @ post) = r # rs" ..
  then show ?thesis
    by (simp add: parseCdKey_def js_match_g_def Let_def)
qed

lemma example_bodies:
  "set (g2keys_bodies (Updates [UpdateOther, new_message g2keys_chatId (js ''AAAAA-11111'')]))
     = {js ''AAAAA-11111''}"
  "set (g2keys_bodies (Updates [new_message g2keys_chatId (js ''BBBBB-22222'')]))
     = {js ''BBBBB-22222''}"
  by (simp_all add: new_message_def map_filter_simps)

lemma example_key_run: "first_maximal_run [] (js ''AAAAA-11111'') []"
  "first_maximal_run [] (js ''BBBBB-22222'') []"
  by (simp_all add: first_maximal_run_def is_key_run_def js_def char_defs)

lemma example_key_trim: "js_trim (js ''AAAAA-11111'') = js ''AAAAA-11111''"
  "js_trim (js ''BBBBB-22222'') = js ''BBBBB-22222''"
  by (simp_all add: js_def js_trim_def char_defs)

lemma example_key_runs: "key_runs (js ''AAAAA-11111'') = [js ''AAAAA-11111'']"
  by (simp add: js_def char_defs)

text \<open>
  C4, as stated, fails. Of three consecutive messages with the bodies A, A, B the
  second and the third have distinct bodies, and the second yields no extraction (the
  third does). And the retained body is not the last one a candidate was returned
  for: after A the body "hello" is handed on and retained although \<open>parseCdKey\<close>
  finds no candidate in it (it throws), so that A, coming again, is extracted again.
\<close>

theorem g2keys_dedup_counterexample:
  "js ''AAAAA-11111'' \<noteq> js ''BBBBB-22222''
   \<and> snd (g2keys_eventsFilter (Updates [new_message g2keys_chatId (js ''AAAAA-11111'')])
        (fst (g2keys_eventsFilter (Updates [new_message g2keys_chatId (js ''AAAAA-11111'')])
           initial_world)))
       = None
   \<and> snd (g2keys_eventsFilter (Updates [new_message g2keys_chatId (js ''BBBBB-22222'')])
        (fst (g2keys_eventsFilter (Updates [new_message g2keys_chatId (js ''AAAAA-11111'')])
           (fst (g2keys_eventsFilter (Updates [new_message g2keys_chatId (js ''AAAAA-11111'')])
              initial_world)))))
       = Some (js ''BBBBB-22222'')
   \<and> snd (g2keys_extraction (Updates [new_message g2keys_chatId (js ''hello'')])
        (fst (g2keys_extraction (Updates [new_message g2keys_chatId (js ''AAAAA-11111'')])
           initial_world)))
       = Throws TypeError
   \<and> lastMsg (fst (g2keys_extraction (Updates [new_message g2keys_chatId (js ''hello'')])
        (fst (g2keys_extraction (Updates [new_message g2keys_chatId (js ''AAAAA-11111'')])
           initial_world))))
       = js ''hello''
   \<and> snd (g2keys_extraction (Updates [new_message g2keys_chatId (js ''AAAAA-11111'')])
        (fst (g2keys_extraction (Updates [new_message g2keys_chatId (js ''hello'')])
           (fst (g2keys_extraction (Updates [new_message g2keys_chatId (js ''AAAAA-11111'')])
              initial_world)))))
       = Returns (Some (js ''AAAAA-11111''))"
proof -
  have ne: "js ''AAAAA-11111'' \<noteq> js ''BBBBB-22222''" "[] \<noteq> js ''AAAAA-11111''"
    "js ''AAAAA-11111'' \<noteq> js ''hello''" "js ''hello'' \<noteq> js ''AAAAA-11111''"
    by (simp_all add: js_def)
  from ne show ?thesis
    by (simp add: g2keys_extraction_def g2keys_eventsFilter_def new_message_def
        initial_world_def parseCdKey_def js_match_g_def Let_def log_line_def
        no_runs_hello example_key_runs example_key_trim)
qed

text \<open>
  C4, amended. The text filter retains the body of the last message it handed on to
  key parsing (it stores the body before parsing, whether or not a key is found in
  it). Take two consecutive events on the configured channel, each with one body
  (all its new channel messages of that channel have it), the second delivered after
  the listener's run on the first. After the first run the retained body is the
  first body. With byte-identical bodies the second event is not handed on and
  yields no extraction: the listener ends with the state unchanged. With distinct
  bodies both are handed on, provided the first body differs from the body retained
  before it (the empty string at the start of the process), and each of the two whose
  body has a run of the extraction pattern yields an extraction, its trimmed first
  run.
\<close>

theorem g2keys_dedup:
  assumes "set (g2keys_bodies e1) = {b1}" and "set (g2keys_bodies e2) = {b2}"
  shows "lastMsg (fst (g2keys_listener reply e1 w)) = b1
    \<and> (b1 = b2 \<longrightarrow>
          snd (g2keys_eventsFilter e2 (fst (g2keys_listener reply e1 w))) = None
        \<and> g2keys_extraction e2 (fst (g2keys_listener reply e1 w))
            = (fst (g2keys_listener reply e1 w), Returns None)
        \<and> g2keys_listener reply2 e2 (fst (g2keys_listener reply e1 w))
            = (fst (g2keys_listener reply e1 w), Completed))
    \<and> (b1 \<noteq> b2 \<and> lastMsg w \<noteq> b1 \<longrightarrow>
          snd (g2keys_eventsFilter e1 w) = Some b1
        \<and> snd (g2keys_eventsFilter e2 (fst (g2keys_listener reply e1 w))) = Some b2)
    \<and> (b1 \<noteq> b2 \<and> lastMsg w \<noteq> b1 \<and> first_maximal_run p1 r1 q1 \<and> b1 = p1 @ r1 @ q1 \<longrightarrow>
          snd (g2keys_extraction e1 w) = Returns (Some (js_trim r1)))
    \<and> (b1 \<noteq> b2 \<and> lastMsg w \<noteq> b1 \<and> first_maximal_run p2 r2 q2 \<and> b2 = p2 @ r2 @ q2 \<longrightarrow>
          snd (g2keys_extraction e2 (fst (g2keys_listener reply e1 w)))
            = Returns (Some (js_trim r2)))"
proof -
  let ?w1 = "fst (g2keys_listener reply e1 w)"
  have l: "lastMsg ?w1 = b1"
    using assms(1) by (rule g2keys_listener_lastMsg)
  have same: "snd (g2keys_eventsFilter e2 ?w1) = None
        \<and> g2keys_extraction e2 ?w1 = (?w1, Returns None)
        \<and> g2keys_listener reply2 e2 ?w1 = (?w1, Completed)" if "b1 = b2"
    using that l
    by (simp add: g2keys_listener_def g2keys_extraction_def g2keys_filter_body [OF assms(2)])
  have handed: "snd (g2keys_eventsFilter e1 w) = Some b1
        \<and> snd (g2keys_eventsFilter e2 ?w1) = Some b2" if "b1 \<noteq> b2" "lastMsg w \<noteq> b1"
    using that l
    by (simp add: g2keys_filter_body [OF assms(1)] g2keys_filter_body [OF assms(2)])
  have first: "snd (g2keys_extraction e1 w) = Returns (Some (js_trim r1))"
    if "lastMsg w \<noteq> b1" "first_maximal_run p1 r1 q1" "b1 = p1 @ r1 @ q1"
    using that parseCdKey_run [of p1 r1 q1 "w\<lparr>lastMsg := b1\<rparr>"]
    by (simp add: g2keys_extraction_def g2keys_filter_body [OF assms(1)])
  have second: "snd (g2keys_extraction e2 ?w1) = Returns (Some (js_trim r2))"
    if "b1 \<noteq> b2" "first_maximal_run p2 r2 q2" "b2 = p2 @ r2 @ q2"
    using that l parseCdKey_run [of p2 r2 q2 "?w1\<lparr>lastMsg := b2\<rparr>"]
    by (simp add: g2keys_extraction_def g2keys_filter_body [OF assms(2)])
  from l same handed first second show ?thesis
    by blast
qed

theorem g2keys_dedup_witness:
  "set (g2keys_bodies (Updates [UpdateOther, new_message g2keys_chatId (js ''AAAAA-11111'')]))
     = {js ''AAAAA-11111''}
   \<and> set (g2keys_bodies (Updates [new_message g2keys_chatId (js ''BBBBB-22222'')]))
     = {js ''BBBBB-22222''}
   \<and> js ''AAAAA-11111'' \<noteq> js ''BBBBB-22222'' \<and> lastMsg initial_world \<noteq> js ''AAAAA-11111''
   \<and> first_maximal_run [] (js ''AAAAA-11111'') []
   \<and> first_maximal_run [] (js ''BBBBB-22222'') []
   \<and> snd (g2keys_extraction (Updates [UpdateOther, new_message g2keys_chatId (js ''AAAAA-11111'')])
        initial_world) = Returns (Some (js ''AAAAA-11111''))
   \<and> snd (g2keys_extraction (Updates [new_message g2keys_chatId (js ''BBBBB-22222'')])
        (fst (g2keys_listener None
           (Updates [UpdateOther, new_message g2keys_chatId (js ''AAAAA-11111'')]) initial_world)))
       = Returns (Some (js ''BBBBB-22222''))
   \<and> snd (g2keys_extraction (Updates [UpdateOther, new_message g2keys_chatId (js ''AAAAA-11111'')])
        (fst (g2keys_listener None
           (Updates [UpdateOther, new_message g2keys_chatId (js ''AAAAA-11111'')]) initial_world)))
       = Returns None"
proof -
  let ?A = "js ''AAAAA-11111''" and ?B = "js ''BBBBB-22222''"
  let ?e1 = "Updates [UpdateOther, new_message g2keys_chatId ?A]"
  let ?e2 = "Updates [new_message g2keys_chatId ?B]"
  let ?w1 = "fst (g2keys_listener None ?e1 initial_world)"
  have d: "?A \<noteq> ?B"
    by (simp add: js_def)
  have l: "lastMsg initial_world \<noteq> ?A"
    by (simp add: initial_world_def js_def)
  note distinct = g2keys_dedup [OF example_bodies(1) example_bodies(2),
      of None initial_world _ "[]" ?A "[]" "[]" ?B "[]"]
  note same = g2keys_dedup [OF example_bodies(1) example_bodies(1), of None initial_world]
  from distinct d l example_key_run
  have "snd (g2keys_extraction ?e1 initial_world) = Returns (Some (js_trim ?A))"
    by simp
  then have x1: "snd (g2keys_extraction ?e1 initial_world) = Returns (Some ?A)"
    by (simp only: example_key_trim)
  from distinct d l example_key_run
  have "snd (g2keys_extraction ?e2 ?w1) = Returns (Some (js_trim ?B))"
    by simp
  then have x2: "snd (g2keys_extraction ?e2 ?w1) = Returns (Some ?B)"
    by (simp only: example_key_trim)
  from same have "g2keys_extraction ?e1 ?w1 = (?w1, Returns None)"
    by blast
  then have x3: "snd (g2keys_extraction ?e1 ?w1) = Returns None"
    by simp
  from example_bodies d l example_key_run x1 x2 x3 show ?thesis
    by blast
qed

section \<open>Properties of the image filter\<close>

lemma freebie_updates_nomatch:
  assumes "\<not> freebie_matches u"
  shows "freebie_updates (u # us) = freebie_updates us"
proof (cases u)
  case UpdateOther
  then show ?thesis by simp
next
  case (UpdateNewChannelMessage m)
  show ?thesis
  proof (cases "media m")
    case None
    with UpdateNewChannelMessage show ?thesis by simp
  next
    case (Some md)
    with UpdateNewChannelMessage assms show ?thesis
      by (cases md) auto
  qed
qed

lemma freebie_updates_skip:
  assumes "\<forall>u \<in> set pre. \<not> freebie_matches u"
  shows "freebie_updates (pre @ us) = freebie_updates us"
  using assms by (induction pre) (simp_all add: freebie_updates_nomatch)

lemma freebie_updates_match:
  assumes "to_channel_id m = Some freebie_chatId" and "message_text m = []"
    and "media m = Some (MessageMediaPhoto p)"
  shows "freebie_updates (UpdateNewChannelMessage m # post) =
    (if sizes p = [] then Throws TypeError
     else Returns (Some \<lparr>fi_location = location (last (sizes p)), fi_size = psize (last (sizes p)),
               fi_id = photo_id p\<rparr>))"
  using assms by (simp add: Let_def split: list.splits)

lemma freebie_matches_cases:
  assumes "freebie_matches u"
  obtains m p where "u = UpdateNewChannelMessage m" and "to_channel_id m = Some freebie_chatId"
    and "message_text m = []" and "media m = Some (MessageMediaPhoto p)"
proof (cases u)
  case (UpdateNewChannelMessage m)
  with assms obtain p where "media m = Some (MessageMediaPhoto p)"
    by (cases "media m") (simp_all split: media.splits)
  with assms UpdateNewChannelMessage that show ?thesis by simp
next
  case UpdateOther
  with assms show ?thesis by simp
qed

lemma freebie_updates_Some:
  assumes "freebie_updates us = Returns (Some fi)"
  shows "\<exists>pre m p post. us = pre @ UpdateNewChannelMessage m # post
      \<and> (\<forall>u \<in> set pre. \<not> freebie_matches u)
      \<and> to_channel_id m = Some freebie_chatId \<and> message_text m = []
      \<and> media m = Some (MessageMediaPhoto p) \<and> sizes p \<noteq> []
      \<and> fi = \<lparr>fi_location = location (last (sizes p)), fi_size = psize (last (sizes p)),
               fi_id = photo_id p\<rparr>"
proof -
  let ?pre = "takeWhile (\<lambda>u. \<not> freebie_matches u) us"
  let ?rest = "dropWhile (\<lambda>u. \<not> freebie_matches u) us"
  have pre: "\<forall>u \<in> set ?pre. \<not> freebie_matches u"
    by (auto dest: set_takeWhileD)
  have split: "us = ?pre @ ?rest"
    by simp
  have "freebie_updates us = freebie_updates (?pre @ ?rest)"
    by simp
  also have "\<dots> = freebie_updates ?rest"
    using pre by (rule freebie_updates_skip)
  finally have rest: "freebie_updates ?rest = Returns (Some fi)"
    using assms by simp
  show ?thesis
  proof (cases ?rest)
    case Nil
    with rest show ?thesis by simp
  next
    case (Cons u post)
    then have "freebie_matches u"
      using hd_dropWhile [of "\<lambda>u. \<not> freebie_matches u" us] by auto
    then obtain m p where u: "u = UpdateNewChannelMessage m"
      and m: "to_channel_id m = Some freebie_chatId" "message_text m = []"
        "media m = Some (MessageMediaPhoto p)"
      by (rule freebie_matches_cases)
    from rest Cons u freebie_updates_match [OF m, of post]
    have "sizes p \<noteq> [] \<and> fi = \<lparr>fi_location = location (last (sizes p)),
        fi_size = psize (last (sizes p)), fi_id = photo_id p\<rparr>"
      by (auto split: if_splits)
    moreover from split Cons u have "us = ?pre @ UpdateNewChannelMessage m # post"
      by simp
    ultimately show ?thesis
      using pre m by blast
  qed
qed

lemma freebie_updates_first:
  assumes "\<forall>u \<in> set pre. \<not> freebie_matches u"
    and "to_channel_id m = Some freebie_chatId" and "message_text m = []"
    and "media m = Some (MessageMediaPhoto p)" and "sizes p \<noteq> []"
  shows "freebie_updates (pre @ UpdateNewChannelMessage m # post) =
    Returns (Some \<lparr>fi_location = location (last (sizes p)), fi_size = psize (last (sizes p)),
               fi_id = photo_id p\<rparr>)"
  using assms(5) freebie_updates_skip [OF assms(1)] freebie_updates_match [OF assms(2,3,4)]
  by simp

text \<open>
  C8. The image filter returns a file only for an event with a new channel message
  of its channel that has a photo and an empty text, and from the first such message
  of the event it returns the location (and size) of the last element of the photo's
  size list together with the photo's identifier. With the sizes 10, 50, 200 that is
  the entry of size 200.
\<close>

theorem image_filter_selects_last:
  "(freebie_eventsFilter ev = Returns (Some fi) \<longrightarrow>
      (\<exists>pre m p post. ev = Updates (pre @ UpdateNewChannelMessage m # post)
        \<and> (\<forall>u \<in> set pre. \<not> freebie_matches u)
        \<and> to_channel_id m = Some freebie_chatId \<and> message_text m = []
        \<and> media m = Some (MessageMediaPhoto p) \<and> sizes p \<noteq> []
        \<and> fi = \<lparr>fi_location = location (last (sizes p)), fi_size = psize (last (sizes p)),
                 fi_id = photo_id p\<rparr>))
   \<and> ((\<forall>u \<in> set pre'. \<not> freebie_matches u)
        \<and> to_channel_id m' = Some freebie_chatId \<and> message_text m' = []
        \<and> media m' = Some (MessageMediaPhoto p') \<and> sizes p' \<noteq> [] \<longrightarrow>
      freebie_eventsFilter (Updates (pre' @ UpdateNewChannelMessage m' # post')) =
        Returns (Some \<lparr>fi_location = location (last (sizes p')),
                       fi_size = psize (last (sizes p')), fi_id = photo_id p'\<rparr>))"
proof (intro conjI impI)
  assume "freebie_eventsFilter ev = Returns (Some fi)"
  then obtain us where "ev = Updates us" and "freebie_updates us = Returns (Some fi)"
    by (cases ev) (simp_all add: freebie_eventsFilter_def)
  with freebie_updates_Some [of us fi]
  show "\<exists>pre m p post. ev = Updates (pre @ UpdateNewChannelMessage m # post)
        \<and> (\<forall>u \<in> set pre. \<not> freebie_matches u)
        \<and> to_channel_id m = Some freebie_chatId \<and> message_text m = []
        \<and> media m = Some (MessageMediaPhoto p) \<and> sizes p \<noteq> []
        \<and> fi = \<lparr>fi_location = location (last (sizes p)), fi_size = psize (last (sizes p)),
                 fi_id = photo_id p\<rparr>"
    by simp
next
  assume "(\<forall>u \<in> set pre'. \<not> freebie_matches u)
        \<and> to_channel_id m' = Some freebie_chatId \<and> message_text m' = []
        \<and> media m' = Some (MessageMediaPhoto p') \<and> sizes p' \<noteq> []"
  then show "freebie_eventsFilter (Updates (pre' @ UpdateNewChannelMessage m' # post')) =
        Returns (Some \<lparr>fi_location = location (last (sizes p')),
                       fi_size = psize (last (sizes p')), fi_id = photo_id p'\<rparr>)"
    by (simp add: freebie_eventsFilter_def freebie_updates_first)
qed

theorem image_filter_selects_last_witness:
  "freebie_eventsFilter (Updates [UpdateOther, UpdateNewChannelMessage
      \<lparr>to_channel_id = Some freebie_chatId, message_text = [],
       media = Some (MessageMediaPhoto \<lparr>photo_id = 7, sizes =
         [\<lparr>location = \<lparr>dc_id = 2, volume_id = js ''246134018'', local_id = 1, secret = js ''11''\<rparr>,
            psize = 10\<rparr>,
          \<lparr>location = \<lparr>dc_id = 2, volume_id = js ''246134018'', local_id = 2, secret = js ''12''\<rparr>,
            psize = 50\<rparr>,
          \<lparr>location = \<lparr>dc_id = 2, volume_id = js ''246134018'', local_id = 3, secret = js ''13''\<rparr>,
            psize = 200\<rparr>]\<rparr>)\<rparr>])
   = Returns (Some \<lparr>fi_location =
        \<lparr>dc_id = 2, volume_id = js ''246134018'', local_id = 3, secret = js ''13''\<rparr>,
        fi_size = 200, fi_id = 7\<rparr>)"
  using image_filter_selects_last [where pre' = "[UpdateOther]" and post' = "[]"
      and p' = "\<lparr>photo_id = 7, sizes =
         [\<lparr>location = \<lparr>dc_id = 2, volume_id = js ''246134018'', local_id = 1, secret = js ''11''\<rparr>,
            psize = 10\<rparr>,
          \<lparr>location = \<lparr>dc_id = 2, volume_id = js ''246134018'', local_id = 2, secret = js ''12''\<rparr>,
            psize = 50\<rparr>,
          \<lparr>location = \<lparr>dc_id = 2, volume_id = js ''246134018'', local_id = 3, secret = js ''13''\<rparr>,
            psize = 200\<rparr>]\<rparr>"
      and m' = "\<lparr>to_channel_id = Some freebie_chatId, message_text = [],
       media = Some (MessageMediaPhoto \<lparr>photo_id = 7, sizes =
         [\<lparr>location = \<lparr>dc_id = 2, volume_id = js ''246134018'', local_id = 1, secret = js ''11''\<rparr>,
            psize = 10\<rparr>,
          \<lparr>location = \<lparr>dc_id = 2, volume_id = js ''246134018'', local_id = 2, secret = js ''12''\<rparr>,
            psize = 50\<rparr>,
          \<lparr>location = \<lparr>dc_id = 2, volume_id = js ''246134018'', local_id = 3, secret = js ''13''\<rparr>,
            psize = 200\<rparr>]\<rparr>)\<rparr>"]
  by simp

text \<open>
  An OCR error is not caught either: with the image loaded and saved, the engine's
  callback throws on \<open>utils.error\<close> before it can reject, so the promise chain of the
  run never reaches its \<open>catch\<close>.
\<close>

lemma ocr_error_uncaught:
  "snd (freebie_pipeline
      \<lparr>purchase_reply = None, image_reply = Resolved bytes, save_error = None,
       ocr_reply = Some (Inl err)\<rparr> fileInfo w) = UncaughtInCallback TypeError"
  by (simp add: freebie_pipeline_def then_promise_def recognice_def freebie_catch_def)

section \<open>Properties of the start of the process\<close>

lemma load_modules_all:
  assumes "\<forall>f \<in> set fs. require_module (''../handler/'' @ f) \<noteq> None"
  shows "load_modules require_module fs w =
    (w\<lparr>listeners := listeners w @ map (\<lambda>f. the (require_module (''../handler/'' @ f))) fs\<rparr>,
     Returns ())"
  using assms by (induction fs arbitrary: w) auto

text \<open>
  C9. With no file in the handler folder \<open>loadHandlers\<close> rejects with the error
  "No event handlers found"; in the chain of \<open>index.js\<close> (both logins done) the
  rejection reaches the final \<open>catch\<close>, which logs it and exits the process. With
  \<open>n > 0\<close> files, each a module that loads, every one of them is loaded, in order (its
  listener is registered on the emitter), and \<open>loadHandlers\<close> resolves with \<open>n\<close>.
\<close>

theorem loadHandlers_count:
  "snd (loadHandlers require_module (Some []) w) = Rejected (ErrorObj ''No event handlers found'')
   \<and> listeners (fst (loadHandlers require_module (Some []) w)) = listeners w
   \<and> startup (Resolved ()) (Resolved ()) require_module (Some []) w =
       (log_line (RuntimeError (ErrorObj ''No event handlers found''))
          (fst (loadHandlers require_module (Some [])
             (log_line TelegramReady (log_line SteamReady (w\<lparr>ready := True\<rparr>))))), Exited)
   \<and> (fs \<noteq> [] \<and> (\<forall>f \<in> set fs. require_module (''../handler/'' @ f) \<noteq> None) \<longrightarrow>
        snd (loadHandlers require_module (Some fs) w) = Resolved (length fs)
        \<and> listeners (fst (loadHandlers require_module (Some fs) w)) =
            listeners w @ map (\<lambda>f. the (require_module (''../handler/'' @ f))) fs)"
proof (intro conjI impI)
  show "snd (loadHandlers require_module (Some []) w)
      = Rejected (ErrorObj ''No event handlers found'')"
    by (simp add: loadHandlers_def)
  show "listeners (fst (loadHandlers require_module (Some []) w)) = listeners w"
    by (simp add: loadHandlers_def log_line_def)
  show "startup (Resolved ()) (Resolved ()) require_module (Some []) w =
       (log_line (RuntimeError (ErrorObj ''No event handlers found''))
          (fst (loadHandlers require_module (Some [])
             (log_line TelegramReady (log_line SteamReady (w\<lparr>ready := True\<rparr>))))), Exited)"
    by (simp add: startup_def loadHandlers_def runtime_error_def)
next
  assume a: "fs \<noteq> [] \<and> (\<forall>f \<in> set fs. require_module (''../handler/'' @ f) \<noteq> None)"
  then have all: "\<forall>f \<in> set fs. require_module (''../handler/'' @ f) \<noteq> None" ..
  from a show "snd (loadHandlers require_module (Some fs) w) = Resolved (length fs)"
    by (simp add: loadHandlers_def load_modules_all [OF all] Let_def)
  from a show "listeners (fst (loadHandlers require_module (Some fs) w)) =
      listeners w @ map (\<lambda>f. the (require_module (''../handler/'' @ f))) fs"
    by (simp add: loadHandlers_def load_modules_all [OF all] log_line_def Let_def)
qed

theorem loadHandlers_count_witness:
  "snd (loadHandlers
      (\<lambda>p. if p = ''../handler/freebie_steam-handler.js'' then Some FreebieSteamHandler
           else if p = ''../handler/g2keys-handler.js'' then Some G2keysHandler else None)
      (Some [''freebie_steam-handler.js'', ''g2keys-handler.js'']) initial_world) = Resolved 2
   \<and> listeners (fst (loadHandlers
      (\<lambda>p. if p = ''../handler/freebie_steam-handler.js'' then Some FreebieSteamHandler
           else if p = ''../handler/g2keys-handler.js'' then Some G2keysHandler else None)
      (Some [''freebie_steam-handler.js'', ''g2keys-handler.js'']) initial_world))
     = [FreebieSteamHandler, G2keysHandler]
   \<and> snd (startup (Resolved ()) (Resolved ())
      (\<lambda>p. if p = ''../handler/freebie_steam-handler.js'' then Some FreebieSteamHandler
           else if p = ''../handler/g2keys-handler.js'' then Some G2keysHandler else None)
      (Some []) initial_world) = Exited"
  using loadHandlers_count [of
      "\<lambda>p. if p = ''../handler/freebie_steam-handler.js'' then Some FreebieSteamHandler
           else if p = ''../handler/g2keys-handler.js'' then Some G2keysHandler else None"
      initial_world "[''freebie_steam-handler.js'', ''g2keys-handler.js'']"]
  by (simp add: initial_world_def)

end
